theory Spec2Isabelle
  imports Complex_Main
begin

section \<open>Python values and exceptions\<close>

text \<open>
  The bridge is Python. An exception raised by the interpreter or by a host primitive is a
  value of \<open>error\<close>; a function that may raise returns \<open>error + 'a\<close> with \<open>Inl\<close> the
  exception.
\<close>

datatype error = IndexError | TypeError | ValueError | ZeroDivisionError | HostError

section \<open>Triangle winding (\<open>promethean_maya.py\<close>, \<open>check_winding_order\<close>, \<open>cross\<close>, \<open>dot\<close>)\<close>



text \<open>\<open>dot(a, b) = sum([x * y for x, y in zip(a, b)])\<close>, dimension agnostic.\<close>

definition dot :: "'a::linordered_idom list \<Rightarrow> 'a list \<Rightarrow> 'a" where
  "dot a b = sum_list (map (\<lambda>(x, y). x * y) (zip a b))"


section \<open>The scene host\<close>

text \<open>
  The host's scene-graph primitives (\<open>maya.cmds\<close>, \<open>OpenMaya\<close>) are outside the bridge:
  each primitive the modelled code calls is a field of \<open>host\<close>, read at the current scene
  state. A primitive that returns a list or \<open>None\<close> is a list, \<open>None\<close> being \<open>[]\<close>
  (the code only tests such results for truth or takes their first element).
  Coordinates are real numbers; the host's floating point is not modelled.
\<close>

type_synonym vec3 = "real \<times> real \<times> real"

record host =
  ls :: "string \<Rightarrow> string list"
  ls_long :: "string \<Rightarrow> string list"
  ls_uuid_long :: "string \<Rightarrow> string list"
  ls_uuid :: "string \<Rightarrow> string list"
  objExists :: "string \<Rightarrow> bool"
  listRelatives_parent :: "string \<Rightarrow> string list"
  listRelatives_shapes :: "string \<Rightarrow> string list"
  nodeType :: "string \<Rightarrow> string"
  draw_traversal_items :: "string list"
  getPanel_underPointer :: "string option"
  getPanel_withFocus :: "string"
  closestIntersection :: "string \<Rightarrow> vec3 \<Rightarrow> vec3 \<Rightarrow> int \<Rightarrow> vec3 option"
  fullPathName :: "string \<Rightarrow> string"
  getClosestNormal :: "string \<Rightarrow> vec3 \<Rightarrow> vec3"
  distanceTo :: "vec3 \<Rightarrow> vec3 \<Rightarrow> real"
  mvector_normal :: "vec3 \<Rightarrow> vec3"
  angleBetween :: "vec3 \<Rightarrow> real list \<Rightarrow> real list"
  convertUnit_cm :: "real"
  group_empty :: "string \<Rightarrow> string"
  reference_asset :: "string \<Rightarrow> string list"
  polyCube :: "string \<Rightarrow> string"
  parent_result :: "string \<Rightarrow> string \<Rightarrow> string"

text \<open>
  \<^item> \<open>ls x\<close> is \<open>cmds.ls(x)\<close>, \<open>ls_long x\<close> is \<open>cmds.ls(x, long=True)\<close>,
    \<open>ls_uuid_long u\<close> is \<open>cmds.ls(u, uuid=True, long=True)\<close> (the nodes with that id) and
    \<open>ls_uuid x\<close> is \<open>cmds.ls(x, uuid=True)\<close> (the ids of the nodes named \<open>x\<close>);
  \<^item> \<open>listRelatives_parent x\<close> is \<open>cmds.listRelatives(x, parent=True, f=True)\<close> and
    \<open>listRelatives_shapes x\<close> is \<open>cmds.listRelatives(x, shapes=True, fullPath=True)\<close>;
  \<^item> \<open>draw_traversal_items\<close> lists, in traversal order, the full path of the transform of
    every item that \<open>MDrawTraversal\<close> finds in the frustum of the active view;
  \<^item> \<open>getPanel_underPointer\<close> and \<open>getPanel_withFocus\<close> are
    \<open>cmds.getPanel(underPointer=True)\<close>, which may have no panel to name, and
    \<open>cmds.getPanel(wf=True)\<close>;
  \<^item> \<open>closestIntersection mesh source direction maxParam\<close> is the hit point of
    \<open>MFnMesh.closestIntersection\<close> on that mesh, \<open>None\<close> when it reports no intersection;
    \<open>fullPathName mesh\<close> is the full path of its DAG path and \<open>getClosestNormal mesh p\<close>
    the normal that \<open>MFnMesh.getClosestNormal\<close> gives at \<open>p\<close>;
  \<^item> \<open>distanceTo p q\<close> is \<open>p.distanceTo(q)\<close> on points and \<open>mvector_normal v\<close> is
    \<open>v.normal()\<close> on vectors;
  \<^item> \<open>angleBetween v1 v2\<close> is \<open>cmds.angleBetween(euler=True, v1=v1, v2=v2)\<close>;
  \<^item> \<open>convertUnit_cm\<close> is the number in \<open>cmds.convertUnit(1.0, toUnit='cm')\<close>: the length
    of the host's current linear unit in centimeters;
  \<^item> \<open>group_empty name\<close>, \<open>polyCube name\<close> and \<open>parent_result child parent\<close> are the
    names that \<open>cmds.group(empty=True, name=name)\<close>, \<open>cmds.polyCube(name=name, ...)[0]\<close>
    and \<open>cmds.parent(child, parent)[0]\<close> return; \<open>reference_asset path\<close> stands for the
    transforms that the module's \<open>reference_asset(path)\<close> returns, a function made of
    host commands that is not unfolded here.

  These primitives are taken to return; the ones that the model lets raise are the mesh
  queries of \<open>mesh_host\<close> below.
\<close>

text \<open>The mutating host commands that the modelled code issues, in the order issued.\<close>

datatype host_call =
    Parent "string list" string
  | Group string
  | ReferenceAsset string
  | PolyCube string
  | Xform string "real list" "real list" "real list"
  | RotateY real string
  | XformRotation "string option" "real list"
  | MoveTo real real real "string option"
  | Move real real real "string list" bool
  | Rotate real real real "string list" bool
  | Scale real real real "string list" bool

section \<open>Identity resolution (\<open>promethean_maya.py\<close>, \<open>get_node_from_promethean_name\<close>)\<close>

text \<open>
  \<open>uuid_regex\<close> is
  \<open>[0-9a-f]{8}-[0-9a-f]{4}-[0-9a-f]{4}-[0-9a-f]{4}-[0-9a-f]{12}\<close>, compiled with
  \<open>re.IGNORECASE\<close>. \<open>match_groups ns s\<close> matches runs of hexadecimal digits of the lengths
  \<open>ns\<close>, separated by \<open>-\<close>, at the start of \<open>s\<close>; \<open>uuid_regex_search\<close> is
  \<open>uuid_regex.search(s)\<close> followed by \<open>.group(0)\<close>: the leftmost match.
\<close>

definition is_hex :: "char \<Rightarrow> bool" where
  "is_hex c = (c \<in> set ''0123456789abcdefABCDEF'')"

fun match_groups :: "nat list \<Rightarrow> string \<Rightarrow> bool" where
  "match_groups [] s = True"
| "match_groups [n] s = (n \<le> length s \<and> list_all is_hex (take n s))"
| "match_groups (n # m # ns) s =
     (n < length s \<and> list_all is_hex (take n s) \<and> s ! n = CHR ''-''
      \<and> match_groups (m # ns) (drop (Suc n) s))"

fun uuid_regex_search :: "string \<Rightarrow> string option" where
  "uuid_regex_search [] = None"
| "uuid_regex_search (c # cs) =
     (if match_groups [8, 4, 4, 4, 12] (c # cs) then Some (take 36 (c # cs))
      else uuid_regex_search cs)"

text \<open>
  \<open>old_nodes_names_dict\<close>, the redirect table, is a dictionary from names to names.
  The part of \<open>get_node_from_promethean_name\<close> after the redirect lookup:
\<close>

type_synonym redirects = "string \<rightharpoonup> string"

definition resolve_by_id_or_label :: "host \<Rightarrow> string \<Rightarrow> string option" where
  "resolve_by_id_or_label h p_name =
     (case uuid_regex_search p_name of
        Some uuid \<Rightarrow>
          (case ls_uuid_long h uuid of [] \<Rightarrow> None | node # _ \<Rightarrow> Some node)
      | None \<Rightarrow>
          (case ls_long h p_name of [node] \<Rightarrow> Some node | _ \<Rightarrow> None))"

text \<open>
  The function returns the node (or \<open>None\<close>) and the table, which it may have changed.
  \<open>if renamed_node:\<close> is Python truth: neither \<open>None\<close> (no entry) nor the empty string.
\<close>

definition get_node_from_promethean_name ::
  "host \<Rightarrow> redirects \<Rightarrow> string \<Rightarrow> string option \<times> redirects" where
  "get_node_from_promethean_name h d p_name =
     (case d p_name of
        None \<Rightarrow> (resolve_by_id_or_label h p_name, d)
      | Some renamed_node \<Rightarrow>
          if renamed_node \<noteq> [] then
            (if ls h renamed_node \<noteq> [] then (Some renamed_node, d)
             else (resolve_by_id_or_label h p_name, d(p_name := None)))
          else (resolve_by_id_or_label h p_name, d))"






section \<open>The \<open>parent\<close> command (\<open>promethean_maya.py\<close>, \<open>command_switch\<close>)\<close>

text \<open>\<open>s.split(sep)\<close> for a one-character separator.\<close>

fun split_on :: "char \<Rightarrow> string \<Rightarrow> string list" where
  "split_on sep [] = [[]]"
| "split_on sep (c # cs) =
     (if c = sep then [] # split_on sep cs
      else (case split_on sep cs of
              w # ws \<Rightarrow> (c # w) # ws
            | [] \<Rightarrow> [[c]]))"

text \<open>
  \<open>_get_valid_children\<close>, over the children that resolved and exist. \<open>parent\<close> is the
  resolved target, a node name; \<open>cmds.ls(child_parent, uuid=True)[0]\<close> raises \<open>IndexError\<close>
  on an empty list.
\<close>

fun get_valid_children :: "host \<Rightarrow> string \<Rightarrow> string list \<Rightarrow> error + string list" where
  "get_valid_children h parent [] = Inr []"
| "get_valid_children h parent (valid_child # rest) =
     (case listRelatives_parent h valid_child of
        [] \<Rightarrow>
          (case get_valid_children h parent rest of
             Inl e \<Rightarrow> Inl e
           | Inr valid_children \<Rightarrow> Inr (valid_child # valid_children))
      | child_parent # _ \<Rightarrow>
          if \<not> objExists h child_parent then get_valid_children h parent rest
          else (case ls_uuid h child_parent of
                  [] \<Rightarrow> Inl IndexError
                | parent_uuid # _ \<Rightarrow>
                    if parent_uuid = parent then get_valid_children h parent rest
                    else (case get_valid_children h parent rest of
                            Inl e \<Rightarrow> Inl e
                          | Inr valid_children \<Rightarrow> Inr (valid_child # valid_children))))"

text \<open>
  The branch, from the resolved nodes: \<open>nodes.pop(0)\<close> is the parent, the rest are the
  children. The result is the list of host commands issued: \<open>cmds.parent(valid_children,
  parent)\<close> or nothing.
\<close>

definition parent_nodes :: "host \<Rightarrow> string option list \<Rightarrow> error + host_call list" where
  "parent_nodes h nodes =
     (case nodes of
        [] \<Rightarrow> Inl IndexError
      | None # children \<Rightarrow> Inr []
      | Some parent # children \<Rightarrow>
          if parent = [] then Inr []
          else if \<not> objExists h parent then Inr []
          else (case get_valid_children h parent
                       [x. Some x \<leftarrow> children, x \<noteq> [] \<and> objExists h x] of
                  Inl e \<Rightarrow> Inl e
                | Inr valid_children \<Rightarrow>
                    if valid_children \<noteq> [] then Inr [Parent valid_children parent]
                    else Inr []))"


section \<open>Raytrace (\<open>promethean_maya.py\<close>, \<open>raytrace\<close>, \<open>get_geometry_in_view\<close>)\<close>

text \<open>\<open>getObjectsInView\<close> keeps the traversal items that \<open>cmds.objExists\<close> confirms.\<close>

definition getObjectsInView :: "host \<Rightarrow> string list" where
  "getObjectsInView h = filter (objExists h) (draw_traversal_items h)"

text \<open>
  \<open>get_geometry_in_view\<close>: the shapes of an object are its shape children when it is a
  transform and the object itself otherwise; the object is appended once for every shape
  that is a mesh.
\<close>

definition shapes_of :: "host \<Rightarrow> string \<Rightarrow> string list" where
  "shapes_of h obj =
     (if nodeType h obj = ''transform'' then listRelatives_shapes h obj else [obj])"

definition get_geometry_in_view :: "host \<Rightarrow> string list" where
  "get_geometry_in_view h =
     concat (map (\<lambda>obj. map (\<lambda>shape. obj)
                          (filter (\<lambda>shape. nodeType h shape = ''mesh'') (shapes_of h obj)))
                 (getObjectsInView h))"

text \<open>\<open>s.startswith(prefix)\<close> and \<open>sub in s\<close> on strings.\<close>

fun starts_with :: "string \<Rightarrow> string \<Rightarrow> bool" where
  "starts_with [] s = True"
| "starts_with (p # ps) [] = False"
| "starts_with (p # ps) (c # cs) = (p = c \<and> starts_with ps cs)"

fun py_in :: "string \<Rightarrow> string \<Rightarrow> bool" where
  "py_in sub [] = (sub = [])"
| "py_in sub (c # cs) = (starts_with sub (c # cs) \<or> py_in sub cs)"

text \<open>\<open>int(x)\<close> of a float truncates toward zero.\<close>

definition py_int :: "real \<Rightarrow> int" where
  "py_int x = (if 0 \<le> x then \<lfloor>x\<rfloor> else \<lceil>x\<rceil>)"

text \<open>\<open>MFloatPoint(x, y, z) * k\<close>.\<close>

definition scale3 :: "real \<Rightarrow> vec3 \<Rightarrow> vec3" where
  "scale3 k p = (case p of (x, y, z) \<Rightarrow> (x * k, y * k, z * k))"

text \<open>
  The names to ignore may hold \<open>None\<close> (names that did not resolve): they are optional
  strings. \<open>meshes_in_view\<close> is the candidate list of \<open>raytrace\<close>.
\<close>

definition meshes_in_view :: "host \<Rightarrow> string option list \<Rightarrow> string list" where
  "meshes_in_view h ignore_dcc_names =
     filter (\<lambda>x. Some x \<notin> set ignore_dcc_names) (get_geometry_in_view h)"

text \<open>\<open>cmds.getPanel(underPointer=True) or cmds.getPanel(wf=True)\<close>.\<close>

definition get_panel :: "host \<Rightarrow> string" where
  "get_panel h =
     (case getPanel_underPointer h of
        None \<Rightarrow> getPanel_withFocus h
      | Some panel \<Rightarrow> if panel \<noteq> [] then panel else getPanel_withFocus h)"

text \<open>
  One round of the loop over the meshes: the entry \<open>(hit_object, hit_point, hit_normal)\<close>
  appended to \<open>results\<close> when \<open>closestIntersection\<close> reports a hit. The bound given to the
  host is \<open>int(distance)\<close>, after the conversion to centimeters.
\<close>

type_synonym hit = "string \<times> vec3 \<times> vec3"

definition intersect_mesh :: "host \<Rightarrow> vec3 \<Rightarrow> vec3 \<Rightarrow> int \<Rightarrow> string \<Rightarrow> hit option" where
  "intersect_mesh h source_point direction max_param mesh =
     (case closestIntersection h mesh source_point direction max_param of
        None \<Rightarrow> None
      | Some hit_point \<Rightarrow>
          Some (fullPathName h mesh, hit_point, getClosestNormal h mesh hit_point))"

definition ray_results :: "host \<Rightarrow> real \<Rightarrow> vec3 \<Rightarrow> vec3 \<Rightarrow> real \<Rightarrow> string list \<Rightarrow> hit list" where
  "ray_results h units_multiplier start_point direction distance meshes =
     List.map_filter
       (intersect_mesh h (scale3 units_multiplier start_point) direction
          (py_int (distance * units_multiplier)))
       meshes"

text \<open>
  The scan for the closest hit: \<open>closest_hit\<close> and \<open>hit_distance\<close> start as \<open>None\<close>, the
  first hit is taken, a later one replaces it only when strictly closer.
\<close>

fun select_closest :: "host \<Rightarrow> vec3 \<Rightarrow> (hit \<times> real) option \<Rightarrow> hit list \<Rightarrow> (hit \<times> real) option" where
  "select_closest h source_point closest [] = closest"
| "select_closest h source_point None (hit # hits) =
     select_closest h source_point
       (Some (hit, distanceTo h (fst (snd hit)) source_point)) hits"
| "select_closest h source_point (Some (closest_hit, hit_distance)) (hit # hits) =
     (let hit_dst = distanceTo h (fst (snd hit)) source_point
      in if hit_dst < hit_distance
         then select_closest h source_point (Some (hit, hit_dst)) hits
         else select_closest h source_point (Some (closest_hit, hit_distance)) hits)"

text \<open>
  What \<open>raytrace\<close> returns for the closest hit: the object, the position converted back
  from centimeters, the normalised normal. The division raises when the multiplier is 0.
\<close>

definition report_hit :: "host \<Rightarrow> real \<Rightarrow> hit \<Rightarrow> error + string \<times> real list \<times> real list" where
  "report_hit h units_multiplier closest_hit =
     (case closest_hit of (hit_object, (px, py, pz), hit_normal) \<Rightarrow>
        if units_multiplier = 0 then Inl ZeroDivisionError
        else (case mvector_normal h hit_normal of (nx, ny, nz) \<Rightarrow>
                Inr (hit_object,
                     [px / units_multiplier, py / units_multiplier, pz / units_multiplier],
                     [nx, ny, nz])))"

text \<open>
  \<open>raytrace(start_point, direction, distance, ignore_dcc_names)\<close> with the module's
  \<open>units_multiplier\<close>. The result \<open>(None, None, None)\<close> is \<open>None\<close>.
\<close>

definition raytrace ::
  "host \<Rightarrow> real \<Rightarrow> vec3 \<Rightarrow> vec3 \<Rightarrow> real \<Rightarrow> string option list
   \<Rightarrow> error + (string \<times> real list \<times> real list) option" where
  "raytrace h units_multiplier start_point direction distance ignore_dcc_names =
     (let meshes = meshes_in_view h ignore_dcc_names
      in if meshes = [] then Inr None
         else if \<not> py_in ''modelPanel'' (get_panel h) then Inr None
         else (let source_point = scale3 units_multiplier start_point;
                   results = ray_results h units_multiplier start_point direction distance meshes
               in case select_closest h source_point None results of
                    None \<Rightarrow> Inr None
                  | Some (closest_hit, hit_distance) \<Rightarrow>
                      (case report_hit h units_multiplier closest_hit of
                         Inl e \<Rightarrow> Inl e
                       | Inr r \<Rightarrow> Inr (Some r))))"



section \<open>Placement (\<open>promethean_maya.py\<close>, \<open>add_object\<close>)\<close>

text \<open>
  The placement request is the dictionary \<open>obj_dict\<close> decoded from the JSON payload; the
  field \<open>obj_k\<close> is the value under the key \<open>k\<close>. The keys read with \<open>.get\<close> may be absent:
  \<open>None\<close> for the three raytrace keys, the default \<open>''\<close> for \<open>parent_dcc_name\<close>.
  \<open>obj_group\<close> is the truth of \<open>obj_dict['group']\<close>.
\<close>

record obj_dict =
  obj_name :: string
  obj_group :: bool
  obj_asset_path :: string
  obj_location :: "real list"
  obj_rotation :: "real list"
  obj_scale :: "real list"
  obj_raytrace_distance :: "real option"
  obj_raytrace_alignment :: "real option"
  obj_raytrace_alignment_mask :: "real option"
  obj_parent_dcc_name :: string

text \<open>
  Python truth of an optional number, and the ordering of a number against an optional
  number: in Python 3 the comparison with \<open>None\<close> raises \<open>TypeError\<close>. (Python 2 ordered
  \<open>None\<close> below every number; the model follows Python 3.)
\<close>

definition truthy :: "real option \<Rightarrow> bool" where
  "truthy x = (case x of None \<Rightarrow> False | Some v \<Rightarrow> v \<noteq> 0)"

definition py_less :: "real \<Rightarrow> real option \<Rightarrow> error + bool" where
  "py_less a b = (case b of None \<Rightarrow> Inl TypeError | Some v \<Rightarrow> Inr (a < v))"

definition py_greater :: "real \<Rightarrow> real option \<Rightarrow> error + bool" where
  "py_greater a b = (case b of None \<Rightarrow> Inl TypeError | Some v \<Rightarrow> Inr (a > v))"

text \<open>
  The first half of \<open>add_object\<close>, up to the creation of the object: it either returns
  \<open>None\<close> at once (\<open>Abandon\<close>) or goes on with a location, a rotation and the flag
  \<open>y_rotation_needed\<close>. \<open>location\<close> is the input location already divided by the
  multiplier. The ray starts half the distance above the location, points down, and ignores
  \<open>[out_name]\<close>, which is \<open>[None]\<close> at that point.
\<close>

datatype placement = Abandon | Place "real list" "real list" bool

definition add_object_raytrace :: "host \<Rightarrow> real \<Rightarrow> obj_dict \<Rightarrow> real list \<Rightarrow> error + placement" where
  "add_object_raytrace h units_multiplier obj location =
     (let rotation = obj_rotation obj
      in if \<not> truthy (obj_raytrace_distance obj) then Inr (Place location rotation False)
         else if units_multiplier = 0 then Inl ZeroDivisionError
         else (let raytrace_distance = the (obj_raytrace_distance obj) / units_multiplier
               in case location of
                    l0 # l1 # l2 # _ \<Rightarrow>
                      (case raytrace h units_multiplier (l0, l1 + raytrace_distance * 0.5, l2)
                              (0, -1, 0) raytrace_distance [None] of
                         Inl e \<Rightarrow> Inl e
                       | Inr None \<Rightarrow> Inr (Place location rotation False)
                       | Inr (Some (hit_object, hit_position, hit_normal)) \<Rightarrow>
                           if hit_object = [] then Inr (Place location rotation False)
                           else if truthy (obj_raytrace_alignment obj)
                                   \<or> truthy (obj_raytrace_alignment_mask obj)
                           then (let up_dot_product = dot [0, 1, 0] hit_normal
                                 in case py_less up_dot_product (obj_raytrace_alignment_mask obj) of
                                      Inl e \<Rightarrow> Inl e
                                    | Inr True \<Rightarrow> Inr Abandon
                                    | Inr False \<Rightarrow>
                                        (case py_greater up_dot_product (obj_raytrace_alignment obj) of
                                           Inl e \<Rightarrow> Inl e
                                         | Inr True \<Rightarrow>
                                             Inr (Place hit_position
                                                    (angleBetween h (0, 1, 0) hit_normal) True)
                                         | Inr False \<Rightarrow> Inr (Place hit_position rotation False)))
                           else Inr (Place hit_position rotation False))
                  | _ \<Rightarrow> Inl IndexError))"

text \<open>
  The creation: an empty group, or the first transform of the referenced asset, or, when
  neither gave a name, a cube. The result is \<open>out_name\<close> and the host commands issued.
\<close>

definition create_object :: "host \<Rightarrow> obj_dict \<Rightarrow> string \<times> host_call list" where
  "create_object h obj =
     (let (out_name, calls) =
            (if obj_group obj then (group_empty h (obj_name obj), [Group (obj_name obj)])
             else if obj_asset_path obj \<noteq> [] then
               (case reference_asset h (obj_asset_path obj) of
                  [] \<Rightarrow> ([], [ReferenceAsset (obj_asset_path obj)])
                | added # _ \<Rightarrow> (added, [ReferenceAsset (obj_asset_path obj)]))
             else ([], []))
      in if out_name = [] then (polyCube h (obj_name obj), calls @ [PolyCube (obj_name obj)])
         else (out_name, calls))"

text \<open>The end of \<open>add_object\<close>: the optional parenting, which resolves the parent's name.\<close>

definition add_object_parent ::
  "host \<Rightarrow> redirects \<Rightarrow> obj_dict \<Rightarrow> string \<Rightarrow> string \<times> host_call list \<times> redirects" where
  "add_object_parent h d obj out_name =
     (let parent_name = obj_parent_dcc_name obj
      in if parent_name = [] then (out_name, [], d)
         else (case get_node_from_promethean_name h d parent_name of
                 (None, d') \<Rightarrow> (out_name, [], d')
               | (Some dcc_parent_name, d') \<Rightarrow>
                   if dcc_parent_name = [] then (out_name, [], d')
                   else (parent_result h out_name dcc_parent_name,
                         [Parent [out_name] dcc_parent_name], d')))"

text \<open>
  The second half of \<open>add_object\<close>, from the creation on: the value returned or the
  exception raised, the host commands issued until then, and the redirect table.
  \<open>obj_dict['rotation'][1]\<close> raises \<open>IndexError\<close> on a rotation with fewer than two
  numbers.
\<close>

definition add_object_place ::
  "host \<Rightarrow> redirects \<Rightarrow> obj_dict \<Rightarrow> real list \<Rightarrow> real list \<Rightarrow> bool
   \<Rightarrow> (error + string option) \<times> host_call list \<times> redirects" where
  "add_object_place h d obj location rotation y_rotation_needed =
     (let (out_name, created) = create_object h obj;
          xform = [Xform out_name location rotation (obj_scale obj)]
      in if y_rotation_needed then
           (case obj_rotation obj of
              _ # yaw # _ \<Rightarrow>
                (let (out_name', parented, d') = add_object_parent h d obj out_name
                 in (Inr (Some out_name'),
                     created @ xform @ [RotateY yaw out_name] @ parented, d'))
            | _ \<Rightarrow> (Inl IndexError, created @ xform, d))
         else (let (out_name', parented, d') = add_object_parent h d obj out_name
               in (Inr (Some out_name'), created @ xform @ parented, d')))"

text \<open>
  \<open>add_object(obj_dict)\<close> with the module's \<open>units_multiplier\<close> and redirect table.
  The division of the location raises when the multiplier is 0.
\<close>

definition add_object ::
  "host \<Rightarrow> redirects \<Rightarrow> real \<Rightarrow> obj_dict
   \<Rightarrow> (error + string option) \<times> host_call list \<times> redirects" where
  "add_object h d units_multiplier obj =
     (if units_multiplier = 0 \<and> obj_location obj \<noteq> [] then (Inl ZeroDivisionError, [], d)
      else (case add_object_raytrace h units_multiplier obj
                   (map (\<lambda>x. x / units_multiplier) (obj_location obj)) of
              Inl e \<Rightarrow> (Inl e, [], d)
            | Inr Abandon \<Rightarrow> (Inr None, [], d)
            | Inr (Place location rotation y_rotation_needed) \<Rightarrow>
                add_object_place h d obj location rotation y_rotation_needed))"

section \<open>Translation with raytrace (\<open>promethean_maya.py\<close>, \<open>translate_and_raytrace_by_name\<close>)\<close>

text \<open>
  \<open>translate_and_raytrace_by_name(dcc_names, location, raytrace_distance,
  max_normal_deviation, ignore_dcc_names)\<close>, for a 3-D \<open>location\<close>: the host commands
  issued. The names come from the resolution and may be \<open>None\<close>. A hit replaces the
  location for the node at hand and for the nodes after it; the position of a hit is a list
  of three numbers.
\<close>

fun translate_and_raytrace_by_name ::
  "host \<Rightarrow> real \<Rightarrow> string option list \<Rightarrow> vec3 \<Rightarrow> real \<Rightarrow> real \<Rightarrow> string option list
   \<Rightarrow> error + host_call list" where
  "translate_and_raytrace_by_name h units_multiplier [] location raytrace_distance
     max_normal_deviation ignore_dcc_names = Inr []"
| "translate_and_raytrace_by_name h units_multiplier (dcc_name # dcc_names) location
     raytrace_distance max_normal_deviation ignore_dcc_names =
     (case (if raytrace_distance \<noteq> 0 then
              (case raytrace h units_multiplier location (0, -1, 0) raytrace_distance
                      ignore_dcc_names of
                 Inl e \<Rightarrow> Inl e
               | Inr None \<Rightarrow> Inr (location, [])
               | Inr (Some (hit_object, hit_position, hit_normal)) \<Rightarrow>
                   if hit_object = [] then Inr (location, [])
                   else (case hit_position of
                           [x, y, z] \<Rightarrow>
                             Inr ((x, y, z),
                                  if dot [0, 1, 0] hit_normal > max_normal_deviation
                                  then [XformRotation dcc_name
                                          (angleBetween h (0, 1, 0) hit_normal)]
                                  else [])
                         | _ \<Rightarrow> Inl IndexError))
            else Inr (location, [])) of
        Inl e \<Rightarrow> Inl e
      | Inr ((x, y, z), rotated) \<Rightarrow>
          (case translate_and_raytrace_by_name h units_multiplier dcc_names (x, y, z)
                  raytrace_distance max_normal_deviation ignore_dcc_names of
             Inl e \<Rightarrow> Inl e
           | Inr calls \<Rightarrow> Inr (rotated @ [MoveTo x y z dcc_name] @ calls)))"

section \<open>Units and the transform commands (\<open>set_current_units_multiplier\<close>, \<open>command_switch\<close>)\<close>




section \<open>Undo chunks (\<open>one_undo_chunk\<close>, \<open>Undo\<close>, \<open>get_triangle_positions\<close>)\<close>

text \<open>
  The host's undo queue is the list of what was recorded, oldest first: chunk boundaries
  from \<open>cmds.undoInfo(openChunk=True)\<close> and \<open>cmds.undoInfo(closeChunk=True)\<close>, undoable
  edits, and \<open>cmds.undo()\<close>. \<open>open_chunks\<close> counts the chunks opened and not closed.
\<close>

datatype undo_event = OpenChunk | CloseChunk | Edit | Undo

definition open_chunks :: "undo_event list \<Rightarrow> int" where
  "open_chunks q = int (count_list q OpenChunk) - int (count_list q CloseChunk)"

text \<open>The state that a command works on: the redirect table and the host's undo queue.\<close>

record bridge =
  old_nodes_names_dict :: redirects
  undo_queue :: "undo_event list"

text \<open>
  The decorator \<open>one_undo_chunk\<close>: \<open>openChunk\<close>, then \<open>func\<close>, and \<open>closeChunk\<close> in the
  \<open>finally\<close> clause, whether \<open>func\<close> returned or raised; the result or the exception
  of \<open>func\<close> goes through.
\<close>

definition one_undo_chunk ::
  "('a \<Rightarrow> bridge \<Rightarrow> (error + 'r) \<times> bridge) \<Rightarrow> 'a \<Rightarrow> bridge \<Rightarrow> (error + 'r) \<times> bridge" where
  "one_undo_chunk func args b =
     (case func args (b\<lparr>undo_queue := undo_queue b @ [OpenChunk]\<rparr>) of
        (Inr r, b') \<Rightarrow> (Inr r, b'\<lparr>undo_queue := undo_queue b' @ [CloseChunk]\<rparr>)
      | (Inl e, b') \<Rightarrow> (Inl e, b'\<lparr>undo_queue := undo_queue b' @ [CloseChunk]\<rparr>))"

text \<open>
  The mesh primitives that \<open>get_triangle_positions\<close> calls; each may raise.
  \<open>polyEvaluate_bbox x\<close> is the unpacking of \<open>cmds.polyEvaluate(x, b=1)\<close> into pairs,
  which fails when the host answers with a message instead of a bounding box;
  \<open>face_vertex_positions x f\<close> stands for the positions of the vertices of face \<open>f\<close>.
\<close>

record mesh_host =
  polyEvaluate_bbox :: "string \<Rightarrow> error + (real \<times> real) list"
  polyTriangulate :: "string \<Rightarrow> error + unit"
  polyEvaluate_face :: "string \<Rightarrow> error + nat"
  face_vertex_positions :: "string \<Rightarrow> nat \<Rightarrow> error + real list list"

fun face_verts_loop :: "mesh_host \<Rightarrow> string \<Rightarrow> nat list \<Rightarrow> real list list \<Rightarrow> error + real list list" where
  "face_verts_loop g dcc_name [] face_verts = Inr face_verts"
| "face_verts_loop g dcc_name (f_num # rest) face_verts =
     (case face_vertex_positions g dcc_name f_num of
        Inl e \<Rightarrow> Inl e
      | Inr current_face_verts \<Rightarrow>
          face_verts_loop g dcc_name rest (face_verts @ current_face_verts))"

text \<open>
  \<open>get_triangle_positions(dcc_name, direction_mask=False)\<close> on the undo queue: it opens a
  chunk of its own, triangulates and clears the selection (two edits), reads the faces,
  closes its chunk and undoes it. There is no \<open>try\<close>: an exception leaves at once.
\<close>

definition get_triangle_positions ::
  "mesh_host \<Rightarrow> string \<Rightarrow> undo_event list \<Rightarrow> (error + real list list) \<times> undo_event list" where
  "get_triangle_positions g dcc_name q =
     (let q1 = q @ [OpenChunk]
      in case polyEvaluate_bbox g dcc_name of
           Inl e \<Rightarrow> (Inl e, q1)
         | Inr bbox \<Rightarrow>
             (case polyTriangulate g dcc_name of
                Inl e \<Rightarrow> (Inl e, q1)
              | Inr _ \<Rightarrow>
                  (let q2 = q1 @ [Edit, Edit]
                   in case polyEvaluate_face g dcc_name of
                        Inl e \<Rightarrow> (Inl e, q2)
                      | Inr face_num \<Rightarrow>
                          (case face_verts_loop g dcc_name [0..<face_num] [] of
                             Inl e \<Rightarrow> (Inl e, q2)
                           | Inr face_verts \<Rightarrow> (Inr face_verts, q2 @ [CloseChunk, Undo])))))"

section \<open>The command dispatcher (\<open>promethean_maya.py\<close>, \<open>command_switch\<close>)\<close>

text \<open>
  What a command needs besides the state: the scene, the mesh primitives, the outcome of
  \<open>cmds.file(save=True)\<close>, the JSON encoding of the vertex data, and \<open>other_commands\<close>,
  which stands for every branch of \<open>command_switch\<close> that is not written out below,
  the pass-through of unknown commands to the host included.
  A branch leaves the message at \<open>'DefaultValue'\<close>, sets it, or returns at once.
\<close>

datatype msg = DefaultValue | Msg string | Return

record command_env =
  scene :: host
  geometry :: mesh_host
  file_save :: "error + unit"
  json_dumps_vertices :: "real list list \<Rightarrow> string"
  other_commands :: "string \<Rightarrow> bridge \<Rightarrow> (error + msg) \<times> bridge"

definition newline :: char where
  "newline = CHR 0x0A"

text \<open>One round of the loop of \<open>command_switch\<close>, for a non-empty \<open>command_str\<close>.\<close>

definition command_switch_command ::
  "command_env \<Rightarrow> string \<Rightarrow> bridge \<Rightarrow> (error + msg) \<times> bridge" where
  "command_switch_command env command_str b =
     (let command_list = split_on CHR '' '' command_str;
          command = (case command_list of [] \<Rightarrow> [] | c # _ \<Rightarrow> c)
      in if command = ''save_current_scene'' then
           (case file_save env of
              Inl e \<Rightarrow> (Inl e, b)
            | Inr _ \<Rightarrow> (Inr DefaultValue, b))
         else if command = ''get_vertex_data_from_scene_object'' \<and> length command_list > 1 then
           (case get_node_from_promethean_name (scene env) (old_nodes_names_dict b)
                   (command_list ! 1) of
              (node, d') \<Rightarrow>
                (let b1 = b\<lparr>old_nodes_names_dict := d'\<rparr>
                 in if node = None \<or> node = Some [] then (Inr DefaultValue, b1)
                    else (case get_triangle_positions (geometry env) (the node) (undo_queue b1) of
                            (Inl e, q) \<Rightarrow> (Inl e, b1\<lparr>undo_queue := q\<rparr>)
                          | (Inr vert_list, q) \<Rightarrow>
                              (Inr (Msg (json_dumps_vertices env vert_list)),
                               b1\<lparr>undo_queue := q\<rparr>))))
         else if command = ''report_done'' then (Inr (Msg ''\"Done\"''), b)
         else other_commands env command_str b)"

text \<open>
  The loop over the lines of \<open>meta_command_str\<close>: blank lines are skipped, the first
  command that sets a message ends the loop with that message (\<open>'None'\<close> for an empty one),
  and the function returns \<open>None\<close> when no command set one.
\<close>

fun command_switch_lines ::
  "command_env \<Rightarrow> string list \<Rightarrow> bridge \<Rightarrow> (error + string option) \<times> bridge" where
  "command_switch_lines env [] b = (Inr None, b)"
| "command_switch_lines env (command_str # rest) b =
     (if command_str = [] then command_switch_lines env rest b
      else (case command_switch_command env command_str b of
              (Inl e, b') \<Rightarrow> (Inl e, b')
            | (Inr Return, b') \<Rightarrow> (Inr None, b')
            | (Inr DefaultValue, b') \<Rightarrow> command_switch_lines env rest b'
            | (Inr (Msg m), b') \<Rightarrow> (Inr (Some (if m = [] then ''None'' else m)), b')))"

text \<open>\<open>command_switch\<close> is that loop under the decorator.\<close>

definition command_switch ::
  "command_env \<Rightarrow> string \<Rightarrow> bridge \<Rightarrow> (error + string option) \<times> bridge" where
  "command_switch env =
     one_undo_chunk (\<lambda>meta_command_str. command_switch_lines env (split_on newline meta_command_str))"

section \<open>The Qt server (\<open>promethean_maya_qt_server.py\<close>, \<open>MayaServer._process_data\<close>)\<close>

text \<open>
  The loop of \<open>_process_data\<close> over the lines of the data read: \<open>res\<close> is the result of
  the last command run, \<open>'None'\<close> when that command raised. \<open>command_switch\<close> is a
  parameter here; \<open>'s\<close> is the state it works on.
\<close>

fun process_commands ::
  "(string \<Rightarrow> 's \<Rightarrow> (error + string option) \<times> 's) \<Rightarrow> string list \<Rightarrow> string option \<Rightarrow> 's
   \<Rightarrow> string option \<times> 's" where
  "process_commands cs [] res s = (res, s)"
| "process_commands cs (data # data_commands) res s =
     (if data = [] then process_commands cs data_commands res s
      else (case cs data s of
              (Inr r, s') \<Rightarrow> process_commands cs data_commands r s'
            | (Inl exc, s') \<Rightarrow> process_commands cs data_commands (Some ''None'') s'))"

text \<open>
  \<open>_process_data(data_str)\<close>: after the loop, a result that is neither \<open>None\<close> nor empty
  is written by \<open>_write\<close>, which writes when the socket is connected. The first component
  is what was written on the connection, \<open>None\<close> when nothing was.
\<close>

definition process_data ::
  "(string \<Rightarrow> 's \<Rightarrow> (error + string option) \<times> 's) \<Rightarrow> bool \<Rightarrow> string \<Rightarrow> 's
   \<Rightarrow> string option \<times> 's" where
  "process_data cs socket_connected data_str s =
     (case process_commands cs (split_on newline data_str) None s of
        (res, s') \<Rightarrow>
          (if res \<noteq> None \<and> res \<noteq> Some [] \<and> socket_connected then (res, s') else (None, s')))"

section \<open>The threaded server (\<open>promethean_maya_server.py\<close>, \<open>execute_command_stack\<close>)\<close>

text \<open>
  The context manager \<open>Undo\<close>: \<open>__enter__\<close> opens a chunk, \<open>__exit__\<close> closes it and
  returns \<open>None\<close>, so that an exception of the body goes on.
\<close>

definition with_Undo :: "(bridge \<Rightarrow> (error + 'r) \<times> bridge) \<Rightarrow> bridge \<Rightarrow> (error + 'r) \<times> bridge" where
  "with_Undo body b =
     (case body (b\<lparr>undo_queue := undo_queue b @ [OpenChunk]\<rparr>) of
        (Inr r, b') \<Rightarrow> (Inr r, b'\<lparr>undo_queue := undo_queue b' @ [CloseChunk]\<rparr>)
      | (Inl e, b') \<Rightarrow> (Inl e, b'\<lparr>undo_queue := undo_queue b' @ [CloseChunk]\<rparr>))"

text \<open>
  One round of the worker for an item \<open>(data, connection)\<close> of \<open>command_stack\<close>. Under
  \<open>Undo\<close> it calls \<open>promethean_maya.command_switch(connection, str(data.decode()))\<close>,
  with two arguments. The decorator's \<open>inner\<close> accepts any arguments and hands them to the
  function, which takes one: the call inside the decorator raises \<open>TypeError\<close>. The worker
  catches the exception, prints it and closes the connection; it writes nothing.
  The result is what was written on the connection, whether the connection was closed, and
  the state.
\<close>

definition execute_command_stack_item :: "string \<Rightarrow> bridge \<Rightarrow> string option \<times> bool \<times> bridge" where
  "execute_command_stack_item data b =
     (case with_Undo
             (one_undo_chunk
                (\<lambda>(connection :: unit, meta_command_str :: string) b'.
                    (Inl TypeError :: error + string option, b'))
                ((), data)) b of
        (Inr r, b') \<Rightarrow> (None, True, b')
      | (Inl e, b') \<Rightarrow> (None, True, b'))"

section \<open>An example scene\<close>

text \<open>
  A group \<open>|grp\<close> with a cube \<open>|grp|cube\<close> under it and a lamp \<open>|lamp\<close> at the top level,
  all three in view of the model panel that has the focus. A ray from above meets the lamp at
  height 5 on a face tilted by about 53 degrees and the cube at height 3 on a flat face.
\<close>

definition example_host :: host where
  "example_host =
     \<lparr> ls = (\<lambda>x. if x \<in> {''|grp'', ''|grp|cube'', ''|lamp'', ''grp'', ''cube'', ''lamp''}
                  then [x] else []),
       ls_long = (\<lambda>x. if x \<in> {''|grp'', ''grp''} then [''|grp'']
                       else if x \<in> {''|grp|cube'', ''cube''} then [''|grp|cube'']
                       else if x \<in> {''|lamp'', ''lamp''} then [''|lamp''] else []),
       ls_uuid_long = (\<lambda>u. if u = ''aaaaaaaa-0000-0000-0000-000000000001'' then [''|grp'']
                       else if u = ''aaaaaaaa-0000-0000-0000-000000000002'' then [''|grp|cube'']
                       else if u = ''aaaaaaaa-0000-0000-0000-000000000003'' then [''|lamp'']
                       else []),
       ls_uuid = (\<lambda>x. if x \<in> {''|grp'', ''grp''}
                         then [''AAAAAAAA-0000-0000-0000-000000000001'']
                       else if x \<in> {''|grp|cube'', ''cube''}
                         then [''AAAAAAAA-0000-0000-0000-000000000002'']
                       else if x \<in> {''|lamp'', ''lamp''}
                         then [''AAAAAAAA-0000-0000-0000-000000000003'']
                       else []),
       objExists = (\<lambda>x. x \<in> {''|grp'', ''|grp|cube'', ''|lamp'', ''grp'', ''cube'', ''lamp''}),
       listRelatives_parent = (\<lambda>x. if x \<in> {''|grp|cube'', ''cube''} then [''|grp''] else []),
       listRelatives_shapes = (\<lambda>x. if x \<in> {''|grp|cube'', ''cube''} then [''|grp|cube|cubeShape'']
                       else if x \<in> {''|lamp'', ''lamp''} then [''|lamp|lampShape''] else []),
       nodeType = (\<lambda>x. if x \<in> {''|grp|cube|cubeShape'', ''|lamp|lampShape''} then ''mesh''
                       else ''transform''),
       draw_traversal_items = [''|grp'', ''|grp|cube'', ''|lamp''],
       getPanel_underPointer = None,
       getPanel_withFocus = ''modelPanel4'',
       closestIntersection = (\<lambda>mesh (sx, sy, sz) direction maxParam.
                       if direction = (0, -1, 0) \<and> mesh = ''|grp|cube'' \<and> 3 \<le> sy
                            \<and> sy - 3 \<le> real_of_int maxParam
                         then Some (sx, 3, sz)
                       else if direction = (0, -1, 0) \<and> mesh = ''|lamp'' \<and> 5 \<le> sy
                            \<and> sy - 5 \<le> real_of_int maxParam
                         then Some (sx, 5, sz)
                       else None),
       fullPathName = (\<lambda>x. x),
       getClosestNormal = (\<lambda>mesh p. if mesh = ''|lamp'' then (0, 3, 4) else (0, 2, 0)),
       distanceTo = (\<lambda>(px, py, pz) (qx, qy, qz).
                       sqrt ((px - qx)\<^sup>2 + (py - qy)\<^sup>2 + (pz - qz)\<^sup>2)),
       mvector_normal = (\<lambda>v. if v = (0, 3, 4) then (0, 3 / 5, 4 / 5)
                       else if v = (0, 2, 0) then (0, 1, 0) else v),
       angleBetween = (\<lambda>v1 v2. if v1 = (0, 1, 0) \<and> v2 = [0, 3 / 5, 4 / 5] then [5313 / 100, 0, 0]
                       else [0, 0, 0]),
       convertUnit_cm = 1,
       group_empty = (\<lambda>name. name),
       reference_asset = (\<lambda>path. []),
       polyCube = (\<lambda>name. name),
       parent_result = (\<lambda>child parent. parent @ ''|'' @ child) \<rparr>"

text \<open>
  A crate to drop from height 10, cast over a distance of 100, with a yaw of 45 degrees.
  Without further keys no threshold is supplied.
\<close>

definition crate :: obj_dict where
  "crate =
     \<lparr> obj_name = ''crate'', obj_group = False, obj_asset_path = [],
       obj_location = [0, 10, 0], obj_rotation = [0, 45, 0], obj_scale = [1, 1, 1],
       obj_raytrace_distance = Some 100, obj_raytrace_alignment = None,
       obj_raytrace_alignment_mask = None, obj_parent_dcc_name = [] \<rparr>"

text \<open>
  The mesh primitives of the example scene: the cube and the lamp are meshes of one
  triangle; for anything else \<open>polyEvaluate\<close> answers with a message, and unpacking it
  fails. Saving succeeds, and every command that is not written out raises.
\<close>

definition example_meshes :: mesh_host where
  "example_meshes =
     \<lparr> polyEvaluate_bbox = (\<lambda>x. if x \<in> {''|grp|cube'', ''|lamp''}
                                 then Inr [(-1, 1), (0, 2), (-1, 1)] else Inl ValueError),
       polyTriangulate = (\<lambda>x. if x \<in> {''|grp|cube'', ''|lamp''} then Inr () else Inl HostError),
       polyEvaluate_face = (\<lambda>x. if x \<in> {''|grp|cube'', ''|lamp''} then Inr 1 else Inl HostError),
       face_vertex_positions = (\<lambda>x f. if x \<in> {''|grp|cube'', ''|lamp''} \<and> f = 0
                                 then Inr [[0, 0, 0], [1, 0, 0], [0, 0, 1]]
                                 else Inl HostError) \<rparr>"

definition example_env :: command_env where
  "example_env =
     \<lparr> scene = example_host, geometry = example_meshes, file_save = Inr (),
       json_dumps_vertices = (\<lambda>vert_list. ''{\"vertex_positions\": ...}''),
       other_commands = (\<lambda>command_str b. (Inl HostError, b)) \<rparr>"

definition empty_bridge :: bridge where
  "empty_bridge = \<lparr> old_nodes_names_dict = Map.empty, undo_queue = [] \<rparr>"

section \<open>Properties of the winding check\<close>






section \<open>Properties of identity resolution\<close>



section \<open>Properties of the \<open>parent\<close> command\<close>

lemma get_valid_children_sound:
  "get_valid_children h parent children = Inr valid_children
   \<Longrightarrow> set valid_children \<subseteq> set children
     \<and> (\<forall>c \<in> set valid_children.
           listRelatives_parent h c = [] \<or> objExists h (hd (listRelatives_parent h c)))"
proof (induction children arbitrary: valid_children)
  case Nil
  then show ?case by simp
next
  case (Cons c children)
  then show ?case
    by (auto split: list.splits if_splits sum.splits)
qed

text \<open>
  What the branch hands to \<open>cmds.parent\<close> are children that resolved to a name, exist,
  and have no parent or a parent that exists.
\<close>

lemma parent_nodes_skips:
  assumes "parent_nodes h (parent # children) = Inr [Parent valid_children target]"
  shows "\<forall>c \<in> set valid_children.
           Some c \<in> set children \<and> c \<noteq> [] \<and> objExists h c
         \<and> (listRelatives_parent h c = [] \<or> objExists h (hd (listRelatives_parent h c)))"
proof -
  from assms obtain p where p: "parent = Some p" "target = p"
    and valid: "get_valid_children h p [x. Some x \<leftarrow> children, x \<noteq> [] \<and> objExists h x]
                = Inr valid_children"
    by (auto simp: parent_nodes_def split: option.splits if_splits sum.splits)
  from get_valid_children_sound [OF valid] show ?thesis
    by (auto split: option.splits if_splits)
qed


section \<open>Properties of the raytrace\<close>









lemma example_panel: "py_in ''modelPanel'' (get_panel example_host)"
  by (simp add: get_panel_def example_host_def)



lemma example_report:
  "report_hit example_host 1 (''|lamp'', (0, 5, 0), (0, 3, 4))
   = Inr (''|lamp'', [0, 5, 0], [0, 3 / 5, 4 / 5])"
  by (simp add: report_hit_def example_host_def)



section \<open>Properties of the placement\<close>

lemma add_object_place_aligned:
  assumes "obj_rotation obj = r0 # yaw # rs"
    and "create_object h obj = (out_name, created)"
    and "add_object_parent h d obj out_name = (out_name', parented, d')"
  shows "add_object_place h d obj location rotation True
         = (Inr (Some out_name'),
            created @ [Xform out_name location rotation (obj_scale obj), RotateY yaw out_name]
              @ parented, d')"
  using assms by (simp add: add_object_place_def)

lemma add_object_place_plain:
  assumes "create_object h obj = (out_name, created)"
    and "add_object_parent h d obj out_name = (out_name', parented, d')"
  shows "add_object_place h d obj location rotation False
         = (Inr (Some out_name'),
            created @ [Xform out_name location rotation (obj_scale obj)] @ parented, d')"
  using assms by (simp add: add_object_place_def)

lemma add_object_place_not_None:
  "fst (add_object_place h d obj location rotation y) \<noteq> Inr None"
  by (auto simp: add_object_place_def Let_def split: prod.splits list.splits)

lemma create_object_ignores_raytrace:
  "create_object h (obj\<lparr>obj_raytrace_distance := x\<rparr>) = create_object h obj"
  by (simp add: create_object_def split: list.splits)

lemma add_object_parent_ignores_raytrace:
  "add_object_parent h d (obj\<lparr>obj_raytrace_distance := x\<rparr>) out_name
   = add_object_parent h d obj out_name"
  by (simp add: add_object_parent_def)

lemma add_object_place_ignores_raytrace:
  "add_object_place h d (obj\<lparr>obj_raytrace_distance := x\<rparr>) location rotation y
   = add_object_place h d obj location rotation y"
  by (simp add: add_object_place_def create_object_ignores_raytrace
        add_object_parent_ignores_raytrace Let_def split: prod.splits list.splits)

text \<open>
  Without a hit the request is carried out as if no raytrace distance had been given: at
  the input location, in host units, and with the input rotation.
\<close>

lemma add_object_no_hit:
  assumes "units_multiplier \<noteq> 0"
    and "obj_raytrace_distance obj = Some rd" and "rd \<noteq> 0"
    and "map (\<lambda>x. x / units_multiplier) (obj_location obj) = l0 # l1 # l2 # l3s"
    and "raytrace h units_multiplier (l0, l1 + rd / units_multiplier * 0.5, l2) (0, -1, 0)
           (rd / units_multiplier) [None] = Inr None"
  shows "add_object h d units_multiplier obj
         = add_object_place h d obj (map (\<lambda>x. x / units_multiplier) (obj_location obj))
             (obj_rotation obj) False"
    and "add_object h d units_multiplier obj
         = add_object h d units_multiplier (obj\<lparr>obj_raytrace_distance := None\<rparr>)"
proof -
  have ray: "add_object_raytrace h units_multiplier obj
               (map (\<lambda>x. x / units_multiplier) (obj_location obj))
             = Inr (Place (map (\<lambda>x. x / units_multiplier) (obj_location obj))
                      (obj_rotation obj) False)"
    using assms by (simp add: add_object_raytrace_def truthy_def Let_def)
  show a: "add_object h d units_multiplier obj
           = add_object_place h d obj (map (\<lambda>x. x / units_multiplier) (obj_location obj))
               (obj_rotation obj) False"
    using assms(1) ray by (simp add: add_object_def)
  have "add_object h d units_multiplier (obj\<lparr>obj_raytrace_distance := None\<rparr>)
        = add_object_place h d obj (map (\<lambda>x. x / units_multiplier) (obj_location obj))
            (obj_rotation obj) False"
    using assms(1)
    by (simp add: add_object_def add_object_raytrace_def truthy_def
          add_object_place_ignores_raytrace)
  with a show "add_object h d units_multiplier obj
               = add_object h d units_multiplier (obj\<lparr>obj_raytrace_distance := None\<rparr>)"
    by simp
qed

text \<open>
  \<open>add_object\<close> returns \<open>None\<close> only after a hit whose normal's dot product with up is
  below a reject threshold that was supplied.
\<close>

lemma add_object_None_only_rejected:
  assumes "fst (add_object h d units_multiplier obj) = Inr None"
  shows "\<exists>rd l0 l1 l2 l3s hit_object hit_position n reject.
           obj_raytrace_distance obj = Some rd
         \<and> map (\<lambda>x. x / units_multiplier) (obj_location obj) = l0 # l1 # l2 # l3s
         \<and> raytrace h units_multiplier (l0, l1 + rd / units_multiplier * 0.5, l2) (0, -1, 0)
               (rd / units_multiplier) [None] = Inr (Some (hit_object, hit_position, n))
         \<and> obj_raytrace_alignment_mask obj = Some reject
         \<and> dot [0, 1, 0] n < reject"
proof -
  from assms have ab: "add_object_raytrace h units_multiplier obj
                         (map (\<lambda>x. x / units_multiplier) (obj_location obj)) = Inr Abandon"
    using add_object_place_not_None [of h d obj]
    by (auto simp: add_object_def split: if_splits sum.splits placement.splits)
  then show ?thesis
    by (auto simp: add_object_raytrace_def truthy_def py_less_def py_greater_def Let_def
          split: if_splits option.splits list.splits sum.splits bool.splits)
qed

text \<open>
  The translation with raytrace aligns the node to the normal when the dot product exceeds
  \<open>max_normal_deviation\<close> and moves it to the hit position: nothing re-applies a yaw, and
  no normal makes it give the node up.
\<close>

lemma translate_and_raytrace_by_name_hit:
  assumes "raytrace_distance \<noteq> 0"
    and "raytrace h units_multiplier location (0, -1, 0) raytrace_distance ignore_dcc_names
         = Inr (Some (hit_object, [x, y, z], n))"
    and "hit_object \<noteq> []"
  shows "translate_and_raytrace_by_name h units_multiplier [dcc_name] location raytrace_distance
           max_normal_deviation ignore_dcc_names
         = Inr ((if max_normal_deviation < dot [0, 1, 0] n
                 then [XformRotation dcc_name (angleBetween h (0, 1, 0) n)] else [])
                @ [MoveTo x y z dcc_name])"
  using assms by simp

text \<open>
  C3, as amended. For a placement whose downward ray hits a surface with normal \<open>n\<close>, when
  an align and a reject threshold are both supplied and are not both zero: if the dot
  product of up with \<open>n\<close> is below the reject threshold, nothing is created and \<open>None\<close> is
  returned; otherwise, if it exceeds the align threshold, the object is created, placed at
  the hit position with the rotation \<open>angleBetween(up, n)\<close>, and then rotated about its
  local Y axis by the yaw of the request; otherwise it is placed at the hit position with
  the rotation of the request. When each threshold is absent or zero, the object is placed
  at the hit position with the rotation of the request, whatever the normal.
\<close>

theorem add_object_alignment_policy:
  assumes "units_multiplier \<noteq> 0"
    and "obj_raytrace_distance obj = Some rd" and "rd \<noteq> 0"
    and "map (\<lambda>x. x / units_multiplier) (obj_location obj) = l0 # l1 # l2 # l3s"
    and "obj_rotation obj = r0 # yaw # rs"
    and "raytrace h units_multiplier (l0, l1 + rd / units_multiplier * 0.5, l2) (0, -1, 0)
           (rd / units_multiplier) [None] = Inr (Some (hit_object, hit_position, n))"
    and "hit_object \<noteq> []"
    and "create_object h obj = (out_name, created)"
    and "add_object_parent h d obj out_name = (out_name', parented, d')"
  shows "(obj_raytrace_alignment obj = Some align
            \<and> obj_raytrace_alignment_mask obj = Some reject
            \<and> (align \<noteq> 0 \<or> reject \<noteq> 0)
          \<longrightarrow> (dot [0, 1, 0] n < reject
                  \<longrightarrow> add_object h d units_multiplier obj = (Inr None, [], d))
              \<and> (\<not> dot [0, 1, 0] n < reject \<and> align < dot [0, 1, 0] n
                  \<longrightarrow> add_object h d units_multiplier obj
                      = (Inr (Some out_name'),
                         created @ [Xform out_name hit_position (angleBetween h (0, 1, 0) n)
                                      (obj_scale obj),
                                    RotateY yaw out_name] @ parented, d'))
              \<and> (\<not> dot [0, 1, 0] n < reject \<and> \<not> align < dot [0, 1, 0] n
                  \<longrightarrow> add_object h d units_multiplier obj
                      = (Inr (Some out_name'),
                         created @ [Xform out_name hit_position (obj_rotation obj)
                                      (obj_scale obj)] @ parented, d')))
       \<and> (\<not> truthy (obj_raytrace_alignment obj) \<and> \<not> truthy (obj_raytrace_alignment_mask obj)
          \<longrightarrow> add_object h d units_multiplier obj
              = (Inr (Some out_name'),
                 created @ [Xform out_name hit_position (obj_rotation obj) (obj_scale obj)]
                   @ parented, d'))"
proof (intro conjI impI)
  have dist: "truthy (obj_raytrace_distance obj)"
    using assms(2,3) by (simp add: truthy_def)
  note aligned = add_object_place_aligned [OF assms(5) assms(8) assms(9)]
  note plain = add_object_place_plain [OF assms(8) assms(9)]
  {
    assume thr: "obj_raytrace_alignment obj = Some align
                 \<and> obj_raytrace_alignment_mask obj = Some reject
                 \<and> (align \<noteq> 0 \<or> reject \<noteq> 0)"
    then have t: "truthy (obj_raytrace_alignment obj) \<or> truthy (obj_raytrace_alignment_mask obj)"
      by (auto simp: truthy_def)
    have ray: "add_object_raytrace h units_multiplier obj
                 (map (\<lambda>x. x / units_multiplier) (obj_location obj))
               = (if dot [0, 1, 0] n < reject then Inr Abandon
                  else if align < dot [0, 1, 0] n
                    then Inr (Place hit_position (angleBetween h (0, 1, 0) n) True)
                  else Inr (Place hit_position (obj_rotation obj) False))"
      using assms(1,2,4,6,7) thr t dist
      by (simp add: add_object_raytrace_def Let_def py_less_def py_greater_def)
    {
      assume "dot [0, 1, 0] n < reject"
      then show "add_object h d units_multiplier obj = (Inr None, [], d)"
        using assms(1) ray by (simp add: add_object_def)
    }
    {
      assume "\<not> dot [0, 1, 0] n < reject \<and> align < dot [0, 1, 0] n"
      then show "add_object h d units_multiplier obj
                 = (Inr (Some out_name'),
                    created @ [Xform out_name hit_position (angleBetween h (0, 1, 0) n)
                                 (obj_scale obj),
                               RotateY yaw out_name] @ parented, d')"
        using assms(1) ray aligned by (simp add: add_object_def)
    }
    {
      assume "\<not> dot [0, 1, 0] n < reject \<and> \<not> align < dot [0, 1, 0] n"
      then show "add_object h d units_multiplier obj
                 = (Inr (Some out_name'),
                    created @ [Xform out_name hit_position (obj_rotation obj) (obj_scale obj)]
                      @ parented, d')"
        using assms(1) ray plain by (simp add: add_object_def)
    }
  }
  {
    assume none: "\<not> truthy (obj_raytrace_alignment obj)
                  \<and> \<not> truthy (obj_raytrace_alignment_mask obj)"
    have "add_object_raytrace h units_multiplier obj
            (map (\<lambda>x. x / units_multiplier) (obj_location obj))
          = Inr (Place hit_position (obj_rotation obj) False)"
      using assms(1,2,4,6,7) none dist
      by (simp add: add_object_raytrace_def Let_def)
    then show "add_object h d units_multiplier obj
               = (Inr (Some out_name'),
                  created @ [Xform out_name hit_position (obj_rotation obj) (obj_scale obj)]
                    @ parented, d')"
      using assms(1) plain by (simp add: add_object_def)
  }
qed

lemma example_meshes_in_view_None:
  "meshes_in_view example_host [None] = [''|grp|cube'', ''|lamp'']"
  by (simp add: meshes_in_view_def get_geometry_in_view_def getObjectsInView_def shapes_of_def
        example_host_def)

lemma example_ray_results_down:
  "ray_results example_host 1 (0, 60, 0) (0, -1, 0) 100 [''|grp|cube'', ''|lamp'']
   = [(''|grp|cube'', (0, 3, 0), (0, 2, 0)), (''|lamp'', (0, 5, 0), (0, 3, 4))]"
  by (simp add: ray_results_def List.map_filter_simps intersect_mesh_def scale3_def py_int_def
        example_host_def)

lemma example_select_closest_down:
  "select_closest example_host (0, 60, 0) None
     [(''|grp|cube'', (0, 3, 0), (0, 2, 0)), (''|lamp'', (0, 5, 0), (0, 3, 4))]
   = Some ((''|lamp'', (0, 5, 0), (0, 3, 4)), 55)"
  by (simp add: example_host_def)

lemma example_raytrace_down:
  "raytrace example_host 1 (0, 60, 0) (0, -1, 0) 100 [None]
   = Inr (Some (''|lamp'', [0, 5, 0], [0, 3 / 5, 4 / 5]))"
  unfolding raytrace_def Let_def example_meshes_in_view_None
  by (simp add: example_panel example_ray_results_down scale3_def
        example_select_closest_down example_report del: select_closest.simps)

lemma crate_fields:
  "obj_name crate = ''crate''" "obj_group crate = False" "obj_asset_path crate = []"
  "obj_location crate = [0, 10, 0]" "obj_rotation crate = [0, 45, 0]"
  "obj_scale crate = [1, 1, 1]" "obj_raytrace_distance crate = Some 100"
  "obj_raytrace_alignment crate = None" "obj_raytrace_alignment_mask crate = None"
  "obj_parent_dcc_name crate = []"
  by (simp_all add: crate_def)

lemma example_create_crate:
  "obj_name obj = ''crate'' \<Longrightarrow> \<not> obj_group obj \<Longrightarrow> obj_asset_path obj = []
   \<Longrightarrow> create_object example_host obj = (''crate'', [PolyCube ''crate''])"
  by (simp add: create_object_def example_host_def)

lemma example_no_parent:
  "obj_parent_dcc_name obj = [] \<Longrightarrow> add_object_parent h d obj out_name = (out_name, [], d)"
  by (simp add: add_object_parent_def)

lemma example_up_dot: "dot [0, 1, 0] [0, 3 / 5, 4 / 5] = (3 / 5 :: real)"
  by (simp add: dot_def)

lemma example_angleBetween:
  "angleBetween example_host (0, 1, 0) [0, 3 / 5, 4 / 5] = [5313 / 100, 0, 0]"
  by (simp add: example_host_def)

theorem add_object_alignment_policy_witness:
  "add_object example_host Map.empty 1
     (crate\<lparr>obj_raytrace_alignment := Some (1 / 2), obj_raytrace_alignment_mask := Some (1 / 10)\<rparr>)
   = (Inr (Some ''crate''),
      [PolyCube ''crate'', Xform ''crate'' [0, 5, 0] [5313 / 100, 0, 0] [1, 1, 1],
       RotateY 45 ''crate''],
      Map.empty)
   \<and> add_object example_host Map.empty 1
       (crate\<lparr>obj_raytrace_alignment := Some (1 / 2), obj_raytrace_alignment_mask := Some (7 / 10)\<rparr>)
     = (Inr None, [], Map.empty)"
proof -
  let ?a = "crate\<lparr>obj_raytrace_alignment := Some (1 / 2), obj_raytrace_alignment_mask := Some (1 / 10)\<rparr>"
  let ?r = "crate\<lparr>obj_raytrace_alignment := Some (1 / 2), obj_raytrace_alignment_mask := Some (7 / 10)\<rparr>"
  have ray: "raytrace example_host 1 (0, 10 + 100 / 1 * 0.5, 0) (0, -1, 0) (100 / 1) [None]
             = Inr (Some (''|lamp'', [0, 5, 0], [0, 3 / 5, 4 / 5]))"
    using example_raytrace_down by simp
  have aligned:
    "add_object example_host Map.empty 1 ?a
     = (Inr (Some ''crate''),
        [PolyCube ''crate''] @ [Xform ''crate'' [0, 5, 0]
                                 (angleBetween example_host (0, 1, 0) [0, 3 / 5, 4 / 5])
                                 (obj_scale ?a),
                               RotateY 45 ''crate''] @ [], Map.empty)"
    using add_object_alignment_policy
            [of 1 ?a 100 0 10 0 "[]" 0 45 "[0]" example_host "''|lamp''" "[0, 5, 0]"
                "[0, 3 / 5, 4 / 5]" "''crate''" "[PolyCube ''crate'']"
                Map.empty "''crate''" "[]" Map.empty "1 / 2" "1 / 10"]
      ray
    by (simp add: crate_fields example_create_crate example_no_parent example_up_dot)
  have rejected: "add_object example_host Map.empty 1 ?r = (Inr None, [], Map.empty)"
    using add_object_alignment_policy
            [of 1 ?r 100 0 10 0 "[]" 0 45 "[0]" example_host "''|lamp''" "[0, 5, 0]"
                "[0, 3 / 5, 4 / 5]" "''crate''" "[PolyCube ''crate'']"
                Map.empty "''crate''" "[]" Map.empty "1 / 2" "7 / 10"]
      ray
    by (simp add: crate_fields example_create_crate example_no_parent example_up_dot)
  from aligned rejected show ?thesis
    by (simp add: crate_fields example_angleBetween)
qed

text \<open>
  C3, as stated, fails on a request whose align threshold is 0 and which has no reject
  threshold: the ray hits the lamp, the dot product of up with the normal is \<open>3/5\<close>, above
  the threshold, and the crate is placed with the rotation of the request, not with
  \<open>angleBetween(up, n)\<close>, and without the rotation about Y that follows an alignment.
\<close>

theorem add_object_zero_align_threshold_counterexample:
  "obj_raytrace_alignment (crate\<lparr>obj_raytrace_alignment := Some 0\<rparr>) = Some 0
   \<and> raytrace example_host 1 (0, 10 + 100 * 0.5, 0) (0, -1, 0) 100 [None]
       = Inr (Some (''|lamp'', [0, 5, 0], [0, 3 / 5, 4 / 5]))
   \<and> (0::real) < dot [0, 1, 0] [0, 3 / 5, 4 / 5]
   \<and> angleBetween example_host (0, 1, 0) [0, 3 / 5, 4 / 5] = [5313 / 100, 0, 0]
   \<and> add_object example_host Map.empty 1 (crate\<lparr>obj_raytrace_alignment := Some 0\<rparr>)
       = (Inr (Some ''crate''),
          [PolyCube ''crate'', Xform ''crate'' [0, 5, 0] [0, 45, 0] [1, 1, 1]], Map.empty)"
proof -
  have "add_object_raytrace example_host 1 (crate\<lparr>obj_raytrace_alignment := Some 0\<rparr>) [0, 10, 0]
        = Inr (Place [0, 5, 0] [0, 45, 0] False)"
    by (simp add: add_object_raytrace_def crate_fields truthy_def example_raytrace_down)
  then have "add_object example_host Map.empty 1 (crate\<lparr>obj_raytrace_alignment := Some 0\<rparr>)
             = (Inr (Some ''crate''),
                [PolyCube ''crate'', Xform ''crate'' [0, 5, 0] [0, 45, 0] [1, 1, 1]], Map.empty)"
    by (simp add: add_object_def add_object_place_def crate_fields example_create_crate
          example_no_parent)
  then show ?thesis
    using example_raytrace_down
    by (simp add: example_up_dot example_angleBetween)
qed

text \<open>
  C4. A request with a raytrace distance and an align threshold of \<open>1/2\<close>, without a reject
  threshold: the ray hits, \<open>up_dot_product < raytrace_alignment_mask\<close> compares a number
  with \<open>None\<close>, and \<open>add_object\<close> raises \<open>TypeError\<close> before anything is created.
\<close>

theorem add_object_align_without_reject_raises:
  "obj_raytrace_alignment_mask (crate\<lparr>obj_raytrace_alignment := Some (1 / 2)\<rparr>) = None
   \<and> add_object example_host Map.empty 1 (crate\<lparr>obj_raytrace_alignment := Some (1 / 2)\<rparr>)
       = (Inl TypeError, [], Map.empty)"
proof -
  have "add_object_raytrace example_host 1 (crate\<lparr>obj_raytrace_alignment := Some (1 / 2)\<rparr>)
          [0, 10, 0] = Inl TypeError"
    by (simp add: add_object_raytrace_def crate_fields truthy_def example_raytrace_down
          py_less_def)
  then show ?thesis
    by (simp add: add_object_def crate_fields)
qed

section \<open>Properties of the unit conversion\<close>











section \<open>Properties of the undo chunks\<close>

text \<open>
  The decorator closes the chunk it opened on both exits: the queue after the call is the
  queue that the function left, which began with the decorator's \<open>OpenChunk\<close>, followed by
  \<open>CloseChunk\<close>; result and exception go through unchanged.
\<close>

lemma one_undo_chunk_closes:
  "undo_queue (snd (one_undo_chunk func args b))
   = undo_queue (snd (func args (b\<lparr>undo_queue := undo_queue b @ [OpenChunk]\<rparr>))) @ [CloseChunk]"
  "fst (one_undo_chunk func args b)
   = fst (func args (b\<lparr>undo_queue := undo_queue b @ [OpenChunk]\<rparr>))"
  by (auto simp: one_undo_chunk_def split: prod.splits sum.splits)

lemma open_chunks_append:
  "open_chunks (q @ q') = open_chunks q + open_chunks q'"
  by (simp add: open_chunks_def)

text \<open>
  When the function only appends to the queue and what it appends is balanced, the
  decorated call leaves as many chunks open as it found.
\<close>

lemma one_undo_chunk_balanced:
  assumes "undo_queue (snd (func args (b\<lparr>undo_queue := undo_queue b @ [OpenChunk]\<rparr>)))
           = undo_queue b @ [OpenChunk] @ recorded"
    and "open_chunks recorded = 0"
  shows "open_chunks (undo_queue (snd (one_undo_chunk func args b))) = open_chunks (undo_queue b)"
  using assms by (simp add: one_undo_chunk_closes open_chunks_append) (simp add: open_chunks_def)

lemma example_resolve_grp:
  "get_node_from_promethean_name example_host Map.empty
     ''grp#aaaaaaaa-0000-0000-0000-000000000001'' = (Some ''|grp'', Map.empty)"
  by (simp add: get_node_from_promethean_name_def resolve_by_id_or_label_def is_hex_def
        example_host_def)

lemma example_vertex_command:
  "split_on CHR '' '' ''get_vertex_data_from_scene_object grp#aaaaaaaa-0000-0000-0000-000000000001''
   = [''get_vertex_data_from_scene_object'', ''grp#aaaaaaaa-0000-0000-0000-000000000001'']"
  by simp

lemma example_vertex_data_raises:
  "command_switch_command example_env
     ''get_vertex_data_from_scene_object grp#aaaaaaaa-0000-0000-0000-000000000001''
     \<lparr>old_nodes_names_dict = Map.empty, undo_queue = q\<rparr>
   = (Inl ValueError, \<lparr>old_nodes_names_dict = Map.empty, undo_queue = q @ [OpenChunk]\<rparr>)"
  unfolding command_switch_command_def example_vertex_command Let_def
  by (simp add: example_env_def example_resolve_grp get_triangle_positions_def
        example_meshes_def)

lemma example_vertex_data_line: "split_on newline
     ''get_vertex_data_from_scene_object grp#aaaaaaaa-0000-0000-0000-000000000001''
   = [''get_vertex_data_from_scene_object grp#aaaaaaaa-0000-0000-0000-000000000001'']"
  by (simp add: newline_def)

lemma example_command_switch_raises:
  "command_switch example_env
     ''get_vertex_data_from_scene_object grp#aaaaaaaa-0000-0000-0000-000000000001'' empty_bridge
   = (Inl ValueError,
      \<lparr>old_nodes_names_dict = Map.empty, undo_queue = [OpenChunk, OpenChunk, CloseChunk]\<rparr>)"
proof -
  let ?command = "''get_vertex_data_from_scene_object grp#aaaaaaaa-0000-0000-0000-000000000001''"
  have "command_switch_lines example_env [?command]
          \<lparr>old_nodes_names_dict = Map.empty, undo_queue = [OpenChunk]\<rparr>
        = (Inl ValueError,
           \<lparr>old_nodes_names_dict = Map.empty, undo_queue = [OpenChunk, OpenChunk]\<rparr>)"
    using example_vertex_data_raises [of "[OpenChunk]"] by simp
  then show ?thesis
    unfolding command_switch_def one_undo_chunk_def example_vertex_data_line empty_bridge_def
    by simp
qed

text \<open>
  C5. The command \<open>get_vertex_data_from_scene_object\<close> on the group of the example scene:
  \<open>get_triangle_positions\<close> opens its own chunk and the unpacking of the bounding box
  fails. The decorator closes its chunk, the inner one stays open.
\<close>

theorem command_switch_leaves_chunk_open:
  "command_switch example_env
     ''get_vertex_data_from_scene_object grp#aaaaaaaa-0000-0000-0000-000000000001'' empty_bridge
   = (Inl ValueError,
      \<lparr>old_nodes_names_dict = Map.empty, undo_queue = [OpenChunk, OpenChunk, CloseChunk]\<rparr>)
   \<and> open_chunks [OpenChunk, OpenChunk, CloseChunk] = 1"
  using example_command_switch_raises by (simp add: open_chunks_def)

section \<open>Properties of the Qt server\<close>

lemma process_commands_append:
  "process_commands cs (xs @ ys) res s
   = (case process_commands cs xs res s of (res', s') \<Rightarrow> process_commands cs ys res' s')"
  by (induction cs xs res s rule: process_commands.induct) (auto split: prod.splits sum.splits)

lemma process_commands_blank:
  "\<forall>x \<in> set xs. x = [] \<Longrightarrow> process_commands cs xs res s = (res, s)"
  by (induction xs) auto

text \<open>
  C6, as amended. When the last non-empty command of the data read raises, the reply of
  \<open>_process_data\<close> is the sentinel \<open>'None'\<close>, written if the socket is connected.
\<close>

theorem process_data_last_command_raises:
  assumes "split_on newline data_str = pre @ command # post"
    and "command \<noteq> []"
    and "\<forall>x \<in> set post. x = []"
    and "process_commands cs pre None s = (res, s1)"
    and "cs command s1 = (Inl exc, s2)"
  shows "process_data cs socket_connected data_str s
         = (if socket_connected then Some ''None'' else None, s2)"
proof -
  have "process_commands cs (command # post) res s1 = (Some ''None'', s2)"
    using assms(2,3,5) by (simp add: process_commands_blank)
  then have "process_commands cs (pre @ command # post) None s = (Some ''None'', s2)"
    using assms(4) by (simp add: process_commands_append)
  then show ?thesis
    using assms(1) by (simp add: process_data_def)
qed

theorem process_data_last_command_raises_witness:
  "process_data (command_switch example_env) True
     ''get_vertex_data_from_scene_object grp#aaaaaaaa-0000-0000-0000-000000000001'' empty_bridge
   = (Some ''None'',
      \<lparr>old_nodes_names_dict = Map.empty, undo_queue = [OpenChunk, OpenChunk, CloseChunk]\<rparr>)"
proof -
  let ?command = "''get_vertex_data_from_scene_object grp#aaaaaaaa-0000-0000-0000-000000000001''"
  have lines: "split_on newline ?command = [] @ ?command # []"
    using example_vertex_data_line by simp
  have nonempty: "?command \<noteq> []" by simp
  have blank: "\<forall>x \<in> set []. x = ([]::string)" by simp
  have before: "process_commands (command_switch example_env) [] None empty_bridge
                = (None, empty_bridge)"
    by simp
  from process_data_last_command_raises
         [OF lines nonempty blank before example_command_switch_raises, of True]
  show ?thesis by simp
qed

lemma example_save_line: "split_on CHR '' '' ''save_current_scene'' = [''save_current_scene'']"
  by simp

lemma example_save_lines: "split_on newline ''save_current_scene'' = [''save_current_scene'']"
  by (simp add: newline_def)

lemma example_command_switch_save:
  "command_switch example_env ''save_current_scene'' \<lparr>old_nodes_names_dict = d, undo_queue = q\<rparr>
   = (Inr None, \<lparr>old_nodes_names_dict = d, undo_queue = q @ [OpenChunk, CloseChunk]\<rparr>)"
proof -
  have "\<And>b. command_switch_command example_env ''save_current_scene'' b
            = (Inr DefaultValue, b)"
    unfolding command_switch_command_def example_save_line Let_def
    by (simp add: example_env_def)
  then have "\<And>b. command_switch_lines example_env [''save_current_scene''] b = (Inr None, b)"
    by simp
  then show ?thesis
    unfolding command_switch_def one_undo_chunk_def example_save_lines
    by simp
qed

lemma example_two_lines:
  "split_on newline
     (''get_vertex_data_from_scene_object grp#aaaaaaaa-0000-0000-0000-000000000001''
      @ [newline] @ ''save_current_scene'')
   = [''get_vertex_data_from_scene_object grp#aaaaaaaa-0000-0000-0000-000000000001'',
      ''save_current_scene'']"
  by (simp add: newline_def)

text \<open>
  C6, as stated, fails when the command that raises is followed by another command in the
  data read: the first command raises, the second one returns nothing, and no reply is
  written.
\<close>

theorem process_data_failure_then_silent_counterexample:
  "fst (command_switch example_env
          ''get_vertex_data_from_scene_object grp#aaaaaaaa-0000-0000-0000-000000000001''
          empty_bridge) = Inl ValueError
   \<and> fst (process_data (command_switch example_env) True
            (''get_vertex_data_from_scene_object grp#aaaaaaaa-0000-0000-0000-000000000001''
             @ [newline] @ ''save_current_scene'') empty_bridge) = None"
proof -
  let ?failing = "''get_vertex_data_from_scene_object grp#aaaaaaaa-0000-0000-0000-000000000001''"
  have "process_commands (command_switch example_env) [?failing, ''save_current_scene''] None
          empty_bridge
        = (None, \<lparr>old_nodes_names_dict = Map.empty,
                   undo_queue = [OpenChunk, OpenChunk, CloseChunk] @ [OpenChunk, CloseChunk]\<rparr>)"
    by (simp add: example_command_switch_raises example_command_switch_save)
  then show ?thesis
    unfolding process_data_def example_two_lines
    by (simp add: example_command_switch_raises)
qed

text \<open>
  The threaded server's worker writes no reply: every call of \<open>command_switch\<close> raises,
  both chunks are closed, and the connection is closed.
\<close>

lemma execute_command_stack_item_silent:
  "execute_command_stack_item data \<lparr>old_nodes_names_dict = d, undo_queue = q\<rparr>
   = (None, True,
      \<lparr>old_nodes_names_dict = d, undo_queue = q @ [OpenChunk, OpenChunk, CloseChunk, CloseChunk]\<rparr>)"
  by (simp add: execute_command_stack_item_def with_Undo_def one_undo_chunk_def)

end
